theory Spec2Isabelle
  imports Main "HOL-Library.Word"
begin

section \<open>Python values and the process state\<close>

text \<open>
  The three scripts are glue around library calls. The embedding keeps their control
  flow, their exception handling, the files they write and the lines they print; what
  the libraries answer (the loaded model, an I/O failure) is a parameter, the world.
\<close>

type_synonym path = string

text \<open>Exceptions derived from Python's \<open>Exception\<close>; the string is \<open>str(e)\<close>.\<close>

datatype exc = ImportError string | Error string

fun str_exc :: "exc \<Rightarrow> string" where
  "str_exc (ImportError m) = m"
| "str_exc (Error m) = m"

text \<open>
  What unwinds the stack: an exception, or \<open>sys.exit(n)\<close>, whose \<open>SystemExit\<close> is not
  an \<open>Exception\<close> and passes through \<open>except Exception\<close>.
\<close>

datatype stop = Raise exc | SysExit nat

text \<open>A numpy array: its shape and its elements in row-major order.\<close>

record 'a ndarray =
  shape :: "nat list"
  data :: "'a list"

definition wf_ndarray :: "'a ndarray \<Rightarrow> bool" where
  "wf_ndarray a = (length (data a) = prod_list (shape a))"

datatype 'a json =
  JInt int | JBool bool | JStr string | JNum 'a
  | JArr "'a json list" | JObj "(string \<times> 'a json) list"

text \<open>
  A printed line is an f-string: literal text and formatted values, in order. The text
  Python renders for a value is left to Python.
\<close>

datatype 'a piece =
  S string | N nat | Shape "nat list" | Arr "'a ndarray" | Ints "int list"
  | Strs "string list" | J "'a json"

type_synonym 'a line = "'a piece list"

record 'a features =
  input_ids :: "int list list"
  sentence_embedding :: "'a ndarray option"

text \<open>
  A module of the loaded model: its class name, the names \<open>hasattr\<close> finds on it, what
  \<open>.embedding.weight.detach().cpu().numpy()\<close> gives, and what calling it does.
\<close>

record 'a module =
  class_name :: string
  attrs :: "string list"
  embedding_weight :: "exc + 'a ndarray"
  forward :: "'a features \<Rightarrow> exc + 'a features"

text \<open>The result of \<open>tokenizer.encode\<close>: an object with \<open>.ids\<close>, or the ids themselves.\<close>

datatype encoding = Encoding "int list" | IdList "int list"

record tokenizer =
  get_vocab :: "exc + (string \<times> int) list"
  tok_encode :: "string \<Rightarrow> exc + encoding"

datatype sentences = Single string | Batch "string list"

record 'a st_model =
  modules :: "'a module list"
  tokenizer :: "exc + tokenizer"
  encode :: "sentences \<Rightarrow> exc + 'a ndarray"

text \<open>The exported graph: the stages traced through the wrapper's forward pass.\<close>

datatype stage = Lookup | Normalization

record onnx_graph =
  stages :: "stage list"
  input_names :: "string list"
  output_names :: "string list"

datatype 'a content =
  Npy "'a ndarray" | JsonFile "'a json" | Bin "8 word list" | Onnx onnx_graph
  | Other string

record 'a state =
  files :: "path \<rightharpoonup> 'a content"
  dirs :: "path set"
  stdout :: "'a line list"
  stderr :: "exc list"

text \<open>The calls that leave the process, each of which may fail for outside reasons.\<close>

datatype op =
  Load path | Reload path | Eval string | Makedirs path | Write path | Read path
  | Copy2 path path | Export path | Import_onnxruntime | Session path

record 'a world =
  pretrained :: "path \<Rightarrow> exc + 'a st_model"
  fault :: "op \<Rightarrow> exc option"
  astype_float32 :: "'a \<Rightarrow> 32 word"
  randint :: "int list list"

section \<open>Computations that print, write files, raise and exit\<close>

type_synonym ('a, 'r) py = "'a state \<Rightarrow> (stop + 'r) \<times> 'a state"

definition ret :: "'r \<Rightarrow> ('a, 'r) py" where
  "ret x = (\<lambda>s. (Inr x, s))"

definition bnd :: "('a, 'r) py \<Rightarrow> ('r \<Rightarrow> ('a, 'q) py) \<Rightarrow> ('a, 'q) py" where
  "bnd m f = (\<lambda>s. case m s of (Inl e, s') \<Rightarrow> (Inl e, s') | (Inr x, s') \<Rightarrow> f x s')"

definition seq :: "('a, 'r) py \<Rightarrow> ('a, 'q) py \<Rightarrow> ('a, 'q) py" where
  "seq m k = bnd m (\<lambda>_. k)"

definition raise :: "exc \<Rightarrow> ('a, 'r) py" where
  "raise e = (\<lambda>s. (Inl (Raise e), s))"

definition sys_exit :: "nat \<Rightarrow> ('a, 'r) py" where
  "sys_exit n = (\<lambda>s. (Inl (SysExit n), s))"

definition lift :: "exc + 'r \<Rightarrow> ('a, 'r) py" where
  "lift r = (case r of Inl e \<Rightarrow> raise e | Inr x \<Rightarrow> ret x)"

definition print :: "'a line \<Rightarrow> ('a, unit) py" where
  "print l = (\<lambda>s. (Inr (), s\<lparr>stdout := stdout s @ [l]\<rparr>))"

definition traceback_print_exc :: "exc \<Rightarrow> ('a, unit) py" where
  "traceback_print_exc e = (\<lambda>s. (Inr (), s\<lparr>stderr := stderr s @ [e]\<rparr>))"

text \<open>\<open>try: m except Exception as e: h e\<close>.\<close>

definition try_except :: "('a, 'r) py \<Rightarrow> (exc \<Rightarrow> ('a, 'r) py) \<Rightarrow> ('a, 'r) py" where
  "try_except m h = (\<lambda>s. case m s of
       (Inl (Raise e), s') \<Rightarrow> h e s'
     | (Inl (SysExit n), s') \<Rightarrow> (Inl (SysExit n), s')
     | (Inr x, s') \<Rightarrow> (Inr x, s'))"

text \<open>A call that leaves the process: it fails where the world says so.\<close>

definition ext :: "'a world \<Rightarrow> op \<Rightarrow> ('a, 'r) py \<Rightarrow> ('a, 'r) py" where
  "ext w c m = (case fault w c of Some e \<Rightarrow> raise e | None \<Rightarrow> m)"

text \<open>
  How the interpreter ends: the script ran to its end, \<open>sys.exit\<close> was called, or an
  exception reached the top, which prints the traceback and gives status 1.
\<close>

datatype ending = Finished | Exited nat | Uncaught exc

fun exit_status :: "ending \<Rightarrow> nat" where
  "exit_status Finished = 0"
| "exit_status (Exited n) = n"
| "exit_status (Uncaught e) = 1"

definition run :: "('a, 'r) py \<Rightarrow> 'a state \<Rightarrow> ending \<times> 'a state" where
  "run m s = (case m s of
       (Inr _, s') \<Rightarrow> (Finished, s')
     | (Inl (SysExit n), s') \<Rightarrow> (Exited n, s')
     | (Inl (Raise e), s') \<Rightarrow> (Uncaught e, s'\<lparr>stderr := stderr s' @ [e]\<rparr>))"

section \<open>The file system and the libraries\<close>

definition os_path_join :: "path \<Rightarrow> string \<Rightarrow> path" where
  "os_path_join p name =
     (if name \<noteq> [] \<and> hd name = CHR ''/'' then name
      else if p = [] then name
      else if last p = CHR ''/'' then p @ name
      else p @ ''/'' @ name)"

definition os_path_exists :: "path \<Rightarrow> ('a, bool) py" where
  "os_path_exists p = (\<lambda>s. (Inr (files s p \<noteq> None \<or> p \<in> dirs s), s))"

definition ancestors :: "path \<Rightarrow> path list" where
  "ancestors p = [take i p. i \<leftarrow> [1..<length p], p ! i = CHR ''/'']"

text \<open>\<open>os.makedirs(p, exist_ok=True)\<close>.\<close>

definition os_makedirs :: "'a world \<Rightarrow> path \<Rightarrow> ('a, unit) py" where
  "os_makedirs w p = ext w (Makedirs p) (\<lambda>s.
     if p = [] then (Inl (Raise (Error ''No such file or directory'')), s)
     else if \<exists>q \<in> set (p # ancestors p). files s q \<noteq> None
       then (Inl (Raise (Error ''File exists'')), s)
     else (Inr (), s\<lparr>dirs := dirs s \<union> set (p # ancestors p)\<rparr>))"

text \<open>Opening a file for writing and writing the whole content.\<close>

definition write_file :: "'a world \<Rightarrow> path \<Rightarrow> 'a content \<Rightarrow> ('a, unit) py" where
  "write_file w p c = ext w (Write p) (\<lambda>s.
     if p \<in> dirs s then (Inl (Raise (Error ''Is a directory'')), s)
     else (Inr (), s\<lparr>files := (files s)(p \<mapsto> c)\<rparr>))"

definition read_file :: "'a world \<Rightarrow> path \<Rightarrow> ('a, 'a content) py" where
  "read_file w p = ext w (Read p) (\<lambda>s.
     case files s p of
       None \<Rightarrow> (Inl (Raise (Error ''No such file or directory'')), s)
     | Some c \<Rightarrow> (Inr c, s))"

definition np_save :: "'a world \<Rightarrow> path \<Rightarrow> 'a ndarray \<Rightarrow> ('a, unit) py" where
  "np_save w p a = write_file w p (Npy a)"

definition np_load :: "'a world \<Rightarrow> path \<Rightarrow> ('a, 'a ndarray) py" where
  "np_load w p = bnd (read_file w p) (\<lambda>c.
     case c of Npy a \<Rightarrow> ret a | _ \<Rightarrow> raise (Error ''Cannot load file as an array''))"

definition json_dump :: "'a world \<Rightarrow> path \<Rightarrow> 'a json \<Rightarrow> ('a, unit) py" where
  "json_dump w p j = write_file w p (JsonFile j)"

definition json_load :: "'a world \<Rightarrow> path \<Rightarrow> ('a, 'a json) py" where
  "json_load w p = bnd (read_file w p) (\<lambda>c.
     case c of JsonFile j \<Rightarrow> ret j | _ \<Rightarrow> raise (Error ''Expecting value''))"

text \<open>\<open>shutil.copy2(src, dst)\<close>.\<close>

definition shutil_copy2 :: "'a world \<Rightarrow> path \<Rightarrow> path \<Rightarrow> ('a, unit) py" where
  "shutil_copy2 w src dst = ext w (Copy2 src dst) (\<lambda>s.
     case files s src of
       None \<Rightarrow> (Inl (Raise (Error ''Is a directory'')), s)
     | Some c \<Rightarrow>
         if src = dst then (Inl (Raise (Error ''are the same file'')), s)
         else if dst \<in> dirs s then (Inl (Raise (Error ''Is a directory'')), s)
         else (Inr (), s\<lparr>files := (files s)(dst \<mapsto> c)\<rparr>))"

definition SentenceTransformer :: "'a world \<Rightarrow> path \<Rightarrow> ('a, 'a st_model) py" where
  "SentenceTransformer w p = ext w (Load p) (lift (pretrained w p))"

text \<open>\<open>model[i]\<close> for a non-negative \<open>i\<close>.\<close>

definition getitem :: "'b list \<Rightarrow> nat \<Rightarrow> exc + 'b" where
  "getitem xs i = (if i < length xs then Inr (xs ! i) else Inl (Error ''index out of range''))"

definition hasattr :: "'a module \<Rightarrow> string \<Rightarrow> bool" where
  "hasattr m name = (name \<in> set (attrs m))"

text \<open>\<open>a[i]\<close> on an array, for a non-negative \<open>i\<close>: the \<open>i\<close>-th block along the first axis.\<close>

definition block :: "'a ndarray \<Rightarrow> nat" where
  "block a = prod_list (tl (shape a))"

definition array_getitem :: "'a ndarray \<Rightarrow> nat \<Rightarrow> exc + 'a ndarray" where
  "array_getitem a i =
     (case shape a of
        [] \<Rightarrow> Inl (Error ''too many indices for array'')
      | n # rest \<Rightarrow>
          if i < n
          then Inr \<lparr>shape = rest, data = take (block a) (drop (i * block a) (data a))\<rparr>
          else Inl (Error ''index out of bounds''))"

text \<open>\<open>a[:k]\<close>.\<close>

definition array_head :: "'a ndarray \<Rightarrow> nat \<Rightarrow> exc + 'a ndarray" where
  "array_head a k =
     (case shape a of
        [] \<Rightarrow> Inl (Error ''too many indices for array'')
      | n # rest \<Rightarrow> Inr \<lparr>shape = min k n # rest, data = take (min k n * block a) (data a)\<rparr>)"

text \<open>\<open>a[ids]\<close> with a list of integers: rows gathered along the first axis.\<close>

definition array_take :: "'a ndarray \<Rightarrow> int list \<Rightarrow> exc + 'a ndarray" where
  "array_take a ids =
     (case shape a of
        [] \<Rightarrow> Inl (Error ''too many indices for array'')
      | n # rest \<Rightarrow>
          if \<forall>i \<in> set ids. - int n \<le> i \<and> i < int n
          then Inr \<lparr>shape = length ids # rest,
                    data = concat (map (\<lambda>i. take (block a)
                      (drop (nat (if i < 0 then i + int n else i) * block a) (data a))) ids)\<rparr>
          else Inl (Error ''index out of bounds''))"

definition shape_at :: "'a ndarray \<Rightarrow> nat \<Rightarrow> exc + nat" where
  "shape_at a i = getitem (shape a) i"

text \<open>\<open>len\<close> of a value read back from a JSON file.\<close>

fun json_len :: "'a json \<Rightarrow> exc + nat" where
  "json_len (JObj kvs) = Inr (length kvs)"
| "json_len (JArr xs) = Inr (length xs)"
| "json_len (JStr t) = Inr (length t)"
| "json_len _ = Inl (Error ''object has no len()'')"

text \<open>Little-endian bytes of a float32.\<close>

definition le_bytes :: "32 word \<Rightarrow> 8 word list" where
  "le_bytes x = [ucast x, ucast (drop_bit 8 x), ucast (drop_bit 16 x), ucast (drop_bit 24 x)]"

definition tobytes :: "32 word ndarray \<Rightarrow> 8 word list" where
  "tobytes a = concat (map le_bytes (data a))"

definition astype :: "'a world \<Rightarrow> 'a ndarray \<Rightarrow> 32 word ndarray" where
  "astype w a = \<lparr>shape = shape a, data = map (astype_float32 w) (data a)\<rparr>"

section \<open>extract_embeddings.py\<close>

text \<open>The two marks the scripts print, as UTF-8 bytes.\<close>

definition check_mark :: string where
  "check_mark = [CHR 0xE2, CHR 0x9C, CHR 0x85]"

definition cross_mark :: string where
  "cross_mark = [CHR 0xE2, CHR 0x9D, CHR 0x8C]"

definition tokens_of :: "encoding \<Rightarrow> int list" where
  "tokens_of encoding = (case encoding of Encoding ids \<Rightarrow> ids | IdList ids \<Rightarrow> ids)"

definition test_extraction :: "'a world \<Rightarrow> 'a st_model \<Rightarrow> path \<Rightarrow> ('a, unit) py" where
  "test_extraction w original_model output_path =
     bnd (np_load w (os_path_join output_path ''embedding_weights.npy'')) (\<lambda>weights.
     bnd (json_load w (os_path_join output_path ''vocab.json'')) (\<lambda>vocab.
     bnd (json_load w (os_path_join output_path ''model_config.json'')) (\<lambda>config.
     seq (print [S ''Loaded weights shape: '', Shape (shape weights)]) (
     bnd (lift (json_len vocab)) (\<lambda>n.
     seq (print [S ''Vocabulary size: '', N n]) (
     seq (print [S ''Config: '', J config]) (
     bnd (lift (encode original_model (Batch [''This is a test sentence.'']))) (\<lambda>original_embedding.
     seq (print [S ''Original embedding shape: '', Shape (shape original_embedding)]) (
     bnd (lift (array_getitem original_embedding 0)) (\<lambda>row.
     bnd (lift (array_head row 5)) (\<lambda>first5.
     seq (print [S ''Original embedding (first 5 values): '', Arr first5]) (
     bnd (lift (tokenizer original_model)) (\<lambda>tokenizer'.
     bnd (lift (tok_encode tokenizer' ''This is a test sentence.'')) (\<lambda>encoding.
     let tokens = tokens_of encoding in
     seq (print [S ''Tokens: '', Ints (take 10 tokens), S ''...'']) (
     seq (if length tokens > 0
          then bnd (lift (array_take weights (take 5 tokens))) (\<lambda>token_embeddings.
               seq (print [S ''Token embeddings shape: '', Shape (shape token_embeddings)]) (
               bnd (lift (array_getitem token_embeddings 0)) (\<lambda>row0.
               bnd (lift (array_head row0 5)) (\<lambda>head5.
               print [S ''First token embedding (first 5 values): '', Arr head5]))))
          else ret ()) (
     print [S check_mark, S '' Extraction test completed!'']))))))))))))))))"

fun copy_files :: "'a world \<Rightarrow> path \<Rightarrow> path \<Rightarrow> string list \<Rightarrow> ('a, unit) py" where
  "copy_files w model_path output_path [] = ret ()"
| "copy_files w model_path output_path (file # rest) =
     (let src = os_path_join model_path file; dst = os_path_join output_path file in
      bnd (os_path_exists src) (\<lambda>found.
      seq (if found then seq (shutil_copy2 w src dst) (print [S ''Copied '', S file])
           else ret ())
          (copy_files w model_path output_path rest)))"

definition normalize_flag :: "'a st_model \<Rightarrow> bool" where
  "normalize_flag model =
     (if length (modules model) > 1 then hasattr (modules model ! 1) ''normalize'' else False)"

definition vocab_json :: "(string \<times> int) list \<Rightarrow> 'a json" where
  "vocab_json vocab = JObj (map (\<lambda>(token, i). (token, JInt i)) vocab)"

definition config_data :: "'a st_model \<Rightarrow> (string \<times> int) list \<Rightarrow> nat \<Rightarrow> 'a json" where
  "config_data model vocab dim = JObj
     [(''vocab_size'', JInt (int (length vocab))),
      (''embedding_dim'', JInt (int dim)),
      (''model_type'', JStr ''model2vec_static''),
      (''normalize'', JBool (normalize_flag model))]"

text \<open>The body of the \<open>try\<close> of \<open>extract_model_weights\<close>.\<close>

definition extract_try :: "'a world \<Rightarrow> 'a st_model \<Rightarrow> path \<Rightarrow> path \<Rightarrow> ('a, bool) py" where
  "extract_try w model model_path output_path =
     bnd (lift (getitem (modules model) 0)) (\<lambda>static_embedding.
     bnd (lift (embedding_weight static_embedding)) (\<lambda>embedding_weights.
     seq (print [S ''Embedding weights shape: '', Shape (shape embedding_weights)]) (
     let weights_path = os_path_join output_path ''embedding_weights.npy'' in
     seq (np_save w weights_path embedding_weights) (
     seq (print [S ''Saved embedding weights to: '', S weights_path]) (
     bnd (lift (tokenizer model)) (\<lambda>tokenizer'.
     bnd (lift (get_vocab tokenizer')) (\<lambda>vocab.
     let vocab_path = os_path_join output_path ''vocab.json'' in
     seq (json_dump w vocab_path (vocab_json vocab)) (
     seq (print [S ''Saved vocabulary to: '', S vocab_path]) (
     bnd (lift (shape_at embedding_weights 1)) (\<lambda>dim.
     let config_path = os_path_join output_path ''model_config.json'' in
     seq (json_dump w config_path (config_data model vocab dim)) (
     seq (print [S ''Saved model config to: '', S config_path]) (
     seq (copy_files w model_path output_path [''tokenizer.json'', ''config.json'']) (
     seq (print [S ''Testing extraction...'']) (
     seq (test_extraction w model output_path) (
     ret True)))))))))))))))"

definition extract_model_weights :: "'a world \<Rightarrow> path \<Rightarrow> path \<Rightarrow> ('a, bool) py" where
  "extract_model_weights w model_path output_path =
     seq (print [S ''Loading model from: '', S model_path]) (
     bnd (SentenceTransformer w model_path) (\<lambda>model.
     seq (print [S ''Extracting model components...'']) (
     seq (os_makedirs w output_path) (
     try_except (extract_try w model model_path output_path) (\<lambda>e.
       seq (print [S ''Error during extraction: '', S (str_exc e)]) (
       seq (traceback_print_exc e) (
       ret False)))))))"

definition metadata :: "nat \<Rightarrow> nat \<Rightarrow> 'a json" where
  "metadata rows cols = JObj
     [(''vocab_size'', JInt (int rows)),
      (''embedding_dim'', JInt (int cols)),
      (''data_type'', JStr ''float32''),
      (''byte_order'', JStr ''little'')]"

definition create_go_embedding_data :: "'a world \<Rightarrow> path \<Rightarrow> ('a, unit) py" where
  "create_go_embedding_data w output_path =
     bnd (np_load w (os_path_join output_path ''embedding_weights.npy'')) (\<lambda>weights.
     let weights_f32 = astype w weights;
         binary_path = os_path_join output_path ''embeddings.bin'' in
     seq (write_file w binary_path (Bin (tobytes weights_f32))) (
     seq (print [S ''Saved binary embeddings to: '', S binary_path]) (
     bnd (lift (shape_at weights 0)) (\<lambda>rows.
     bnd (lift (shape_at weights 1)) (\<lambda>cols.
     let metadata_path = os_path_join output_path ''embeddings_metadata.json'' in
     seq (json_dump w metadata_path (metadata rows cols)) (
     print [S ''Saved metadata to: '', S metadata_path]))))))"

definition extract_main :: "'a world \<Rightarrow> string list \<Rightarrow> ('a, unit) py" where
  "extract_main w argv =
     (if length argv \<noteq> 3
      then seq (print [S ''Usage: python extract_embeddings.py <input_model_path> <output_path>''])
               (sys_exit 1)
      else
        let input_path = argv ! 1; output_path = argv ! 2 in
        bnd (os_path_exists input_path) (\<lambda>found.
        if \<not> found
        then seq (print [S ''Error: Input path does not exist: '', S input_path]) (sys_exit 1)
        else
          seq (print [S ''Model2vec Embedding Extractor'']) (
          seq (print [S (replicate 40 (CHR ''=''))]) (
          bnd (extract_model_weights w input_path output_path) (\<lambda>success.
          if success
          then seq (print [S ''Creating Go-friendly data files...'']) (
               seq (create_go_embedding_data w output_path) (
               seq (print [S check_mark, S '' Extraction completed successfully!'']) (
               print [S ''Extracted data available at: '', S output_path])))
          else seq (print [S cross_mark, S '' Extraction failed!'']) (sys_exit 1))))))"

section \<open>convert_to_onnx.py\<close>

text \<open>\<open>Model2VecWrapper\<close>: the embedding module and, when there is one, the module after it.\<close>

record 'a wrapper =
  static_embedding :: "'a module"
  normalize :: "'a module option"

definition wrapper_forward :: "'a wrapper \<Rightarrow> int list list \<Rightarrow> exc + 'a ndarray" where
  "wrapper_forward self ids =
     (let features = \<lparr>input_ids = ids, sentence_embedding = None\<rparr> in
      case forward (static_embedding self) features of
        Inl e \<Rightarrow> Inl e
      | Inr embeddings \<Rightarrow>
          (case (case normalize self of
                   None \<Rightarrow> Inr embeddings
                 | Some normalize_module \<Rightarrow> forward normalize_module embeddings) of
             Inl e \<Rightarrow> Inl e
           | Inr embeddings' \<Rightarrow>
               (case sentence_embedding embeddings' of
                  None \<Rightarrow> Inl (Error ''sentence_embedding'')
                | Some v \<Rightarrow> Inr v)))"

text \<open>The stages a trace of \<open>wrapper_forward\<close> goes through.\<close>

definition traced_stages :: "'a wrapper \<Rightarrow> stage list" where
  "traced_stages self =
     Lookup # (case normalize self of None \<Rightarrow> [] | Some _ \<Rightarrow> [Normalization])"

text \<open>
  \<open>torch.onnx.export\<close>: runs the wrapper once on the dummy input, and when that run
  succeeds writes the traced graph.
\<close>

definition torch_onnx_export ::
  "'a world \<Rightarrow> 'a wrapper \<Rightarrow> int list list \<Rightarrow> path \<Rightarrow> string list \<Rightarrow> string list
     \<Rightarrow> ('a, unit) py" where
  "torch_onnx_export w self dummy_input onnx_path ins outs = ext w (Export onnx_path) (
     case wrapper_forward self dummy_input of
       Inl e \<Rightarrow> raise e
     | Inr _ \<Rightarrow> write_file w onnx_path
         (Onnx \<lparr>stages = traced_stages self, input_names = ins, output_names = outs\<rparr>))"

definition InferenceSession :: "'a world \<Rightarrow> path \<Rightarrow> ('a, onnx_graph) py" where
  "InferenceSession w p = ext w (Session p) (\<lambda>s.
     case files s p of
       Some (Onnx g) \<Rightarrow> (Inr g, s)
     | _ \<Rightarrow> (Inl (Raise (Error ''Load model failed'')), s))"

text \<open>The body of the \<open>try\<close> of \<open>test_onnx_model\<close>.\<close>

definition test_onnx_try :: "'a world \<Rightarrow> path \<Rightarrow> path \<Rightarrow> ('a, bool) py" where
  "test_onnx_try w onnx_path original_model_path =
     seq (ext w Import_onnxruntime (ret ())) (
     bnd (InferenceSession w onnx_path) (\<lambda>session.
     bnd (ext w (Reload original_model_path) (lift (pretrained w original_model_path)))
       (\<lambda>original_model.
     let test_text = ''This is a test sentence for embedding.'' in
     seq (print [S ''Testing with text: '', S test_text]) (
     bnd (lift (encode original_model (Batch [test_text]))) (\<lambda>original_embedding.
     seq (print [S ''Original embedding shape: '', Shape (shape original_embedding)]) (
     bnd (lift (array_getitem original_embedding 0)) (\<lambda>row.
     bnd (lift (array_head row 5)) (\<lambda>first5.
     seq (print [S ''Original embedding (first 5 values): '', Arr first5]) (
     seq (print [S ''ONNX model structure looks good!'']) (
     ret True))))))))))"

text \<open>The two \<open>except\<close> clauses, \<open>ImportError\<close> first.\<close>

definition test_onnx_except :: "exc \<Rightarrow> ('a, bool) py" where
  "test_onnx_except e =
     (case e of
        ImportError _ \<Rightarrow>
          seq (print [S ''onnxruntime not available for testing, but ONNX export completed''])
              (ret True)
      | Error _ \<Rightarrow>
          seq (print [S ''Error testing ONNX model: '', S (str_exc e)]) (ret False))"

definition test_onnx_model :: "'a world \<Rightarrow> path \<Rightarrow> path \<Rightarrow> ('a, bool) py" where
  "test_onnx_model w onnx_path original_model_path =
     try_except (test_onnx_try w onnx_path original_model_path) test_onnx_except"

definition normalize_module_of :: "'a st_model \<Rightarrow> 'a module option" where
  "normalize_module_of model =
     (if length (modules model) > 1 then Some (modules model ! 1) else None)"

text \<open>
  The body of the \<open>try\<close> of \<open>convert_model_to_onnx\<close>, in two parts: the export with
  the copying of the side files, and the test that follows.
\<close>

definition convert_export ::
  "'a world \<Rightarrow> 'a st_model \<Rightarrow> path \<Rightarrow> path \<Rightarrow> path \<Rightarrow> ('a, unit) py" where
  "convert_export w model model_path output_path onnx_path =
     bnd (lift (getitem (modules model) 0)) (\<lambda>static_embedding'.
     seq (print [S ''Model modules: '', Strs (map class_name (modules model))]) (
     let normalize_module = normalize_module_of model;
         wrapper = \<lparr>static_embedding = static_embedding', normalize = normalize_module\<rparr> in
     seq (ext w (Eval ''wrapper'') (ret ())) (
     let dummy_input = randint w in
     seq (torch_onnx_export w wrapper dummy_input onnx_path [''input_ids''] [''embeddings'']) (
     seq (print [S ''ONNX model saved to: '', S onnx_path]) (
     copy_files w model_path output_path
       [''tokenizer.json'', ''config.json'', ''modules.json''])))))"

definition convert_try ::
  "'a world \<Rightarrow> 'a st_model \<Rightarrow> path \<Rightarrow> path \<Rightarrow> path \<Rightarrow> ('a, bool) py" where
  "convert_try w model model_path output_path onnx_path =
     seq (convert_export w model model_path output_path onnx_path) (
     seq (print [S ''Testing ONNX model...'']) (
     bnd (test_onnx_model w onnx_path model_path) (\<lambda>_.
     ret True)))"

definition convert_model_to_onnx :: "'a world \<Rightarrow> path \<Rightarrow> path \<Rightarrow> ('a, bool) py" where
  "convert_model_to_onnx w model_path output_path =
     seq (print [S ''Loading model from: '', S model_path]) (
     bnd (SentenceTransformer w model_path) (\<lambda>model.
     seq (ext w (Eval ''model'') (ret ())) (
     seq (print [S ''Converting to ONNX...'']) (
     seq (os_makedirs w output_path) (
     let onnx_path = os_path_join output_path ''model.onnx'' in
     try_except (convert_try w model model_path output_path onnx_path) (\<lambda>e.
       seq (print [S ''Error during ONNX export: '', S (str_exc e)]) (
       seq (traceback_print_exc e) (
       ret False))))))))"

definition convert_main :: "'a world \<Rightarrow> string list \<Rightarrow> ('a, unit) py" where
  "convert_main w argv =
     (if length argv \<noteq> 3
      then seq (print [S ''Usage: python convert_to_onnx.py <input_model_path> <output_path>''])
               (sys_exit 1)
      else
        let input_path = argv ! 1; output_path = argv ! 2 in
        bnd (os_path_exists input_path) (\<lambda>found.
        if \<not> found
        then seq (print [S ''Error: Input path does not exist: '', S input_path]) (sys_exit 1)
        else
          seq (print [S ''Model2vec to ONNX Converter'']) (
          seq (print [S (replicate 40 (CHR ''=''))]) (
          bnd (convert_model_to_onnx w input_path output_path) (\<lambda>success.
          if success
          then seq (print [S check_mark, S '' Conversion completed successfully!'']) (
               print [S ''ONNX model available at: '', S output_path])
          else seq (print [S cross_mark, S '' Conversion failed!'']) (sys_exit 1))))))"

section \<open>embed.py\<close>

definition MODEL_PATH :: path where
  "MODEL_PATH = ''/tmp/codeforge-model-1695886931/minilm-distilled''"

text \<open>\<open>ndarray.tolist()\<close>: nested lists following the shape.\<close>

fun tolist_at :: "nat list \<Rightarrow> 'a list \<Rightarrow> 'a json" where
  "tolist_at [] xs = (case xs of [] \<Rightarrow> JArr [] | x # _ \<Rightarrow> JNum x)"
| "tolist_at (n # rest) xs =
     JArr (map (\<lambda>i. tolist_at rest (take (prod_list rest) (drop (i * prod_list rest) xs)))
            [0..<n])"

definition tolist :: "'a ndarray \<Rightarrow> 'a json" where
  "tolist a = tolist_at (shape a) (data a)"

text \<open>The module-level load, before anything else runs.\<close>

definition embed_load :: "'a world \<Rightarrow> ('a, 'a st_model) py" where
  "embed_load w =
     try_except (SentenceTransformer w MODEL_PATH) (\<lambda>e.
       seq (print [J (JObj [(''error'', JStr (''Failed to load model: '' @ str_exc e))])])
           (sys_exit 1))"

definition generate_embedding :: "'a st_model \<Rightarrow> string \<Rightarrow> ('a, 'a json) py" where
  "generate_embedding model text =
     try_except (
       bnd (lift (encode model (Single text))) (\<lambda>embedding.
       let embedding_list = tolist embedding in
       ret (JObj [(''embedding'', embedding_list)])))
     (\<lambda>e. ret (JObj [(''error'', JStr (''Failed to generate embedding: '' @ str_exc e))]))"

definition embed_main :: "'a world \<Rightarrow> string list \<Rightarrow> ('a, unit) py" where
  "embed_main w argv =
     bnd (embed_load w) (\<lambda>model.
     if length argv \<noteq> 2
     then seq (print [J (JObj [(''error'', JStr ''Usage: script.py <text>'')])]) (sys_exit 1)
     else
       let text = argv ! 1 in
       bnd (generate_embedding model text) (\<lambda>result.
       print [J result]))"

section \<open>What a run leaves behind\<close>

text \<open>A key of a JSON object, and the JSON value a file holds.\<close>

definition json_get :: "'a json \<Rightarrow> string \<Rightarrow> 'a json option" where
  "json_get j k = (case j of JObj kvs \<Rightarrow> map_of kvs k | _ \<Rightarrow> None)"

definition json_file :: "'a state \<Rightarrow> path \<Rightarrow> 'a json option" where
  "json_file s p = (case files s p of Some (JsonFile j) \<Rightarrow> Some j | _ \<Rightarrow> None)"

text \<open>The embedding matrix and the vocabulary of the model found at a path.\<close>

definition model_weights :: "'a world \<Rightarrow> path \<Rightarrow> exc + 'a ndarray" where
  "model_weights w p =
     (case pretrained w p of
        Inl e \<Rightarrow> Inl e
      | Inr model \<Rightarrow>
          (case getitem (modules model) 0 of
             Inl e \<Rightarrow> Inl e
           | Inr m0 \<Rightarrow> embedding_weight m0))"

definition model_vocab :: "'a world \<Rightarrow> path \<Rightarrow> exc + (string \<times> int) list" where
  "model_vocab w p =
     (case pretrained w p of
        Inl e \<Rightarrow> Inl e
      | Inr model \<Rightarrow>
          (case tokenizer model of Inl e \<Rightarrow> Inl e | Inr t \<Rightarrow> get_vocab t))"

text \<open>A computation that leaves the file at \<open>p\<close> as it was, and one that never exits.\<close>

definition keeps :: "path \<Rightarrow> ('a, 'r) py \<Rightarrow> bool" where
  "keeps p m = (\<forall>s. files (snd (m s)) p = files s p)"

definition no_exit :: "('a, 'r) py \<Rightarrow> bool" where
  "no_exit m = (\<forall>s n. fst (m s) \<noteq> Inl (SysExit n))"

section \<open>A small model to run the scripts on\<close>

definition demo_weights :: "32 word ndarray" where
  "demo_weights = \<lparr>shape = [3, 2], data = [1, 2, 3, 4, 5, 6]\<rparr>"

definition demo_embedding :: "32 word module" where
  "demo_embedding =
     \<lparr>class_name = ''StaticEmbedding'', attrs = [''embedding'', ''tokenizer''],
      embedding_weight = Inr demo_weights,
      forward = (\<lambda>f. Inr (f\<lparr>sentence_embedding := Some \<lparr>shape = [1, 2], data = [1, 2]\<rparr>\<rparr>))\<rparr>"

definition demo_normalize :: "32 word module" where
  "demo_normalize =
     \<lparr>class_name = ''Normalize'', attrs = [],
      embedding_weight = Inl (Error ''object has no attribute embedding''),
      forward = (\<lambda>f. Inr f)\<rparr>"

definition demo_tokenizer :: tokenizer where
  "demo_tokenizer =
     \<lparr>get_vocab = Inr [(''a'', 0), (''b'', 1)], tok_encode = (\<lambda>t. Inr (Encoding [0, 1]))\<rparr>"

definition demo_model :: "32 word st_model" where
  "demo_model =
     \<lparr>modules = [demo_embedding], tokenizer = Inr demo_tokenizer,
      encode = (\<lambda>t. Inr \<lparr>shape = [1, 2], data = [1, 2]\<rparr>)\<rparr>"

definition demo_model2 :: "32 word st_model" where
  "demo_model2 = demo_model\<lparr>modules := [demo_embedding, demo_normalize]\<rparr>"

definition demo_world :: "32 word world" where
  "demo_world =
     \<lparr>pretrained = (\<lambda>p. Inr demo_model), fault = (\<lambda>c. None),
      astype_float32 = (\<lambda>x. x), randint = [[0, 1]]\<rparr>"

definition demo_world2 :: "32 word world" where
  "demo_world2 = demo_world\<lparr>pretrained := (\<lambda>p. Inr demo_model2)\<rparr>"

definition demo_state :: "32 word state" where
  "demo_state = \<lparr>files = Map.empty, dirs = {''m''}, stdout = [], stderr = []\<rparr>"

section \<open>How the computations compose\<close>

lemma bnd_Inr_iff:
  "bnd m f s = (Inr r, s') \<longleftrightarrow> (\<exists>x s1. m s = (Inr x, s1) \<and> f x s1 = (Inr r, s'))"
  by (auto simp: bnd_def split: prod.splits sum.splits)

lemma seq_Inr_iff:
  "seq m k s = (Inr r, s') \<longleftrightarrow> (\<exists>x s1. m s = (Inr x, s1) \<and> k s1 = (Inr r, s'))"
  by (simp add: seq_def bnd_Inr_iff)

lemma ret_iff: "ret x s = (r, s') \<longleftrightarrow> r = Inr x \<and> s' = s"
  by (auto simp: ret_def)

lemma raise_iff: "raise e s = (r, s') \<longleftrightarrow> r = Inl (Raise e) \<and> s' = s"
  by (auto simp: raise_def)

lemma sys_exit_iff: "sys_exit n s = (r, s') \<longleftrightarrow> r = Inl (SysExit n) \<and> s' = s"
  by (auto simp: sys_exit_def)

lemma lift_Inr_iff: "lift r s = (Inr x, s') \<longleftrightarrow> r = Inr x \<and> s' = s"
  by (auto simp: lift_def ret_def raise_def split: sum.splits)

lemma print_iff: "print l s = (r, s') \<longleftrightarrow> r = Inr () \<and> s' = s\<lparr>stdout := stdout s @ [l]\<rparr>"
  by (auto simp: print_def)

lemma ext_Inr_iff:
  "ext w c m s = (Inr r, s') \<longleftrightarrow> fault w c = None \<and> m s = (Inr r, s')"
  by (auto simp: ext_def raise_def split: option.splits)

lemma write_file_Inr_iff:
  "write_file w p c s = (Inr u, s') \<longleftrightarrow>
     fault w (Write p) = None \<and> p \<notin> dirs s \<and> s' = s\<lparr>files := (files s)(p \<mapsto> c)\<rparr>"
  by (auto simp: write_file_def ext_Inr_iff)

lemma read_file_Inr_iff:
  "read_file w p s = (Inr c, s') \<longleftrightarrow> fault w (Read p) = None \<and> files s p = Some c \<and> s' = s"
  by (auto simp: read_file_def ext_Inr_iff split: option.splits)

lemma npy_case_iff:
  "(case c of Npy a \<Rightarrow> ret a | _ \<Rightarrow> raise e) s = (Inr a', s') \<longleftrightarrow> c = Npy a' \<and> s' = s"
  by (cases c) (auto simp: ret_iff raise_iff)

lemma json_case_iff:
  "(case c of JsonFile j \<Rightarrow> ret j | _ \<Rightarrow> raise e) s = (Inr j', s') \<longleftrightarrow> c = JsonFile j' \<and> s' = s"
  by (cases c) (auto simp: ret_iff raise_iff)

lemma np_load_Inr_iff:
  "np_load w p s = (Inr a, s') \<longleftrightarrow>
     fault w (Read p) = None \<and> files s p = Some (Npy a) \<and> s' = s"
  by (auto simp: np_load_def bnd_Inr_iff read_file_Inr_iff npy_case_iff)

lemma json_load_Inr_iff:
  "json_load w p s = (Inr j, s') \<longleftrightarrow>
     fault w (Read p) = None \<and> files s p = Some (JsonFile j) \<and> s' = s"
  by (auto simp: json_load_def bnd_Inr_iff read_file_Inr_iff json_case_iff)

lemma keeps_ret: "keeps p (ret x)" by (simp add: keeps_def ret_def)
lemma keeps_raise: "keeps p (raise e)" by (simp add: keeps_def raise_def)
lemma keeps_sys_exit: "keeps p (sys_exit n)" by (simp add: keeps_def sys_exit_def)
lemma keeps_lift: "keeps p (lift r)" by (simp add: lift_def keeps_ret keeps_raise split: sum.splits)
lemma keeps_print: "keeps p (print l)" by (simp add: keeps_def print_def)
lemma keeps_traceback: "keeps p (traceback_print_exc e)" by (simp add: keeps_def traceback_print_exc_def)

lemma keeps_bnd: "keeps p m \<Longrightarrow> (\<And>x. keeps p (f x)) \<Longrightarrow> keeps p (bnd m f)"
  by (auto simp: keeps_def bnd_def split: prod.splits sum.splits) (metis snd_conv)+

lemma keeps_seq: "keeps p m \<Longrightarrow> keeps p k \<Longrightarrow> keeps p (seq m k)"
  by (simp add: seq_def keeps_bnd)

lemma keeps_try_except: "keeps p m \<Longrightarrow> (\<And>e. keeps p (h e)) \<Longrightarrow> keeps p (try_except m h)"
  by (auto simp: keeps_def try_except_def split: prod.splits sum.splits stop.splits) (metis snd_conv)+

lemma keeps_ext: "keeps p m \<Longrightarrow> keeps p (ext w c m)"
  by (simp add: ext_def keeps_raise split: option.splits)

lemma keeps_if: "(c \<Longrightarrow> keeps p a) \<Longrightarrow> (\<not> c \<Longrightarrow> keeps p b) \<Longrightarrow> keeps p (if c then a else b)"
  by simp

lemma keeps_write_file: "q \<noteq> p \<Longrightarrow> keeps p (write_file w q c)"
  unfolding write_file_def by (rule keeps_ext) (simp add: keeps_def)

lemma keeps_read_file: "keeps p (read_file w q)"
  unfolding read_file_def by (rule keeps_ext) (simp add: keeps_def split: option.splits)

lemma keeps_np_load: "keeps p (np_load w q)"
  unfolding np_load_def
  by (intro keeps_bnd keeps_read_file) (simp add: keeps_ret keeps_raise split: content.splits)

lemma keeps_json_load: "keeps p (json_load w q)"
  unfolding json_load_def
  by (intro keeps_bnd keeps_read_file) (simp add: keeps_ret keeps_raise split: content.splits)

lemma keeps_makedirs: "keeps p (os_makedirs w q)"
  unfolding os_makedirs_def by (rule keeps_ext) (simp add: keeps_def)

lemma keeps_exists: "keeps p (os_path_exists q)"
  by (simp add: keeps_def os_path_exists_def)

lemma keeps_copy2: "dst \<noteq> p \<Longrightarrow> keeps p (shutil_copy2 w src dst)"
  unfolding shutil_copy2_def by (rule keeps_ext) (simp add: keeps_def split: option.splits)

lemma keeps_copy_files:
  "\<forall>f \<in> set names. os_path_join out f \<noteq> p \<Longrightarrow> keeps p (copy_files w inp out names)"
  by (induction names)
     (auto simp: Let_def intro!: keeps_ret keeps_bnd keeps_seq keeps_exists keeps_copy2 keeps_print)

lemma keeps_SentenceTransformer: "keeps p (SentenceTransformer w q)"
  by (simp add: SentenceTransformer_def keeps_ext keeps_lift)

lemma keeps_test_extraction: "keeps p (test_extraction w model out)"
  unfolding test_extraction_def Let_def
  by (intro keeps_bnd keeps_seq keeps_if keeps_np_load keeps_json_load keeps_print keeps_lift keeps_ret)

lemma join_neq:
  "a \<noteq> b \<Longrightarrow> a \<noteq> [] \<Longrightarrow> hd a \<noteq> CHR ''/'' \<Longrightarrow> b \<noteq> [] \<Longrightarrow> hd b \<noteq> CHR ''/''
     \<Longrightarrow> os_path_join p a \<noteq> os_path_join p b"
  by (auto simp: os_path_join_def)

lemma keeps_extract_model_weights:
  assumes "p = os_path_join out ''embeddings.bin'' \<or> p = os_path_join out ''embeddings_metadata.json''"
  shows "keeps p (extract_model_weights w inp out)"
  using assms
  unfolding extract_model_weights_def extract_try_def Let_def np_save_def json_dump_def
  by (intro keeps_bnd keeps_seq keeps_try_except keeps_print keeps_lift keeps_ret keeps_traceback
        keeps_SentenceTransformer keeps_makedirs keeps_write_file keeps_copy_files keeps_test_extraction)
     (auto simp: join_neq)

lemma keepsD: "keeps p m \<Longrightarrow> m s = (r, s') \<Longrightarrow> files s' p = files s p"
  by (metis keeps_def snd_conv)

lemma copy_side_files_keep:
  assumes "copy_files w inp out [''tokenizer.json'', ''config.json''] s = (r, s')"
    and "name \<in> {''embedding_weights.npy'', ''vocab.json'', ''model_config.json''}"
  shows "files s' (os_path_join out name) = files s (os_path_join out name)"
  using assms(2) by (intro keepsD [OF keeps_copy_files assms(1)]) (auto simp: join_neq)

lemma test_extraction_keep:
  "test_extraction w model out s = (r, s') \<Longrightarrow> files s' p = files s p"
  by (rule keepsD [OF keeps_test_extraction])

lemma extract_try_success:
  assumes "extract_try w model inp out s = (Inr r, s')"
  shows "\<exists>m0 a tok vocab dim.
     getitem (modules model) 0 = Inr m0 \<and> embedding_weight m0 = Inr a \<and>
     tokenizer model = Inr tok \<and> get_vocab tok = Inr vocab \<and> shape_at a 1 = Inr dim \<and> r \<and>
     files s' (os_path_join out ''embedding_weights.npy'') = Some (Npy a) \<and>
     files s' (os_path_join out ''vocab.json'') = Some (JsonFile (vocab_json vocab)) \<and>
     files s' (os_path_join out ''model_config.json'')
       = Some (JsonFile (config_data model vocab dim))"
  using assms
  apply (clarsimp simp: extract_try_def Let_def bnd_Inr_iff seq_Inr_iff lift_Inr_iff print_iff
      ret_iff np_save_def json_dump_def write_file_Inr_iff simp del: copy_files.simps)
  apply (simp add: test_extraction_keep copy_side_files_keep join_neq)
  done

lemma no_exit_ret: "no_exit (ret x)" by (simp add: no_exit_def ret_def)
lemma no_exit_raise: "no_exit (raise e)" by (simp add: no_exit_def raise_def)
lemma no_exit_lift: "no_exit (lift r)" by (simp add: lift_def no_exit_ret no_exit_raise split: sum.splits)
lemma no_exit_print: "no_exit (print l)" by (simp add: no_exit_def print_def)
lemma no_exit_traceback: "no_exit (traceback_print_exc e)" by (simp add: no_exit_def traceback_print_exc_def)

lemma no_exit_bnd: "no_exit m \<Longrightarrow> (\<And>x. no_exit (f x)) \<Longrightarrow> no_exit (bnd m f)"
  by (auto simp: no_exit_def bnd_def split: prod.splits sum.splits) (metis fst_conv)+

lemma no_exit_seq: "no_exit m \<Longrightarrow> no_exit k \<Longrightarrow> no_exit (seq m k)"
  by (simp add: seq_def no_exit_bnd)

lemma no_exit_try_except: "no_exit m \<Longrightarrow> (\<And>e. no_exit (h e)) \<Longrightarrow> no_exit (try_except m h)"
  by (auto simp: no_exit_def try_except_def split: prod.splits sum.splits stop.splits) (metis fst_conv)+

lemma no_exit_ext: "no_exit m \<Longrightarrow> no_exit (ext w c m)"
  by (simp add: ext_def no_exit_raise split: option.splits)

lemma no_exit_if: "(c \<Longrightarrow> no_exit a) \<Longrightarrow> (\<not> c \<Longrightarrow> no_exit b) \<Longrightarrow> no_exit (if c then a else b)"
  by simp

lemma no_exit_write_file: "no_exit (write_file w q c)"
  unfolding write_file_def by (rule no_exit_ext) (simp add: no_exit_def)

lemma no_exit_read_file: "no_exit (read_file w q)"
  unfolding read_file_def by (rule no_exit_ext) (simp add: no_exit_def split: option.splits)

lemma no_exit_np_load: "no_exit (np_load w q)"
  unfolding np_load_def
  by (intro no_exit_bnd no_exit_read_file) (simp add: no_exit_ret no_exit_raise split: content.splits)

lemma no_exit_json_load: "no_exit (json_load w q)"
  unfolding json_load_def
  by (intro no_exit_bnd no_exit_read_file) (simp add: no_exit_ret no_exit_raise split: content.splits)

lemma no_exit_makedirs: "no_exit (os_makedirs w q)"
  unfolding os_makedirs_def by (rule no_exit_ext) (simp add: no_exit_def)

lemma no_exit_exists: "no_exit (os_path_exists q)"
  by (simp add: no_exit_def os_path_exists_def)

lemma no_exit_copy2: "no_exit (shutil_copy2 w src dst)"
  unfolding shutil_copy2_def by (rule no_exit_ext) (simp add: no_exit_def split: option.splits)

lemma no_exit_copy_files: "no_exit (copy_files w inp out names)"
  by (induction names)
     (auto simp: Let_def intro!: no_exit_ret no_exit_bnd no_exit_seq no_exit_exists no_exit_copy2 no_exit_print)

lemma no_exit_SentenceTransformer: "no_exit (SentenceTransformer w q)"
  by (simp add: SentenceTransformer_def no_exit_ext no_exit_lift)

lemma no_exit_test_extraction: "no_exit (test_extraction w model out)"
  unfolding test_extraction_def Let_def
  by (intro no_exit_bnd no_exit_seq no_exit_if no_exit_np_load no_exit_json_load no_exit_print no_exit_lift no_exit_ret)

lemma no_exit_extract_model_weights: "no_exit (extract_model_weights w inp out)"
  unfolding extract_model_weights_def extract_try_def Let_def np_save_def json_dump_def
  by (intro no_exit_bnd no_exit_seq no_exit_try_except no_exit_print no_exit_lift no_exit_ret no_exit_traceback
        no_exit_SentenceTransformer no_exit_makedirs no_exit_write_file no_exit_copy_files no_exit_test_extraction)

lemma no_exit_InferenceSession: "no_exit (InferenceSession w p)"
  unfolding InferenceSession_def
  by (rule no_exit_ext) (simp add: no_exit_def split: option.splits content.splits)

lemma no_exit_test_onnx_try: "no_exit (test_onnx_try w onnx_path original_model_path)"
  unfolding test_onnx_try_def Let_def
  by (intro no_exit_bnd no_exit_seq no_exit_ext no_exit_InferenceSession no_exit_print no_exit_lift no_exit_ret)

lemma test_onnx_except_returns: "\<exists>b s'. test_onnx_except e s = (Inr b, s')"
  by (cases e) (auto simp: test_onnx_except_def seq_def bnd_def print_def ret_def)

lemma test_onnx_model_returns:
  "\<exists>b s'. test_onnx_model w onnx_path original_model_path s = (Inr b, s')"
proof -
  obtain r s1 where body: "test_onnx_try w onnx_path original_model_path s = (r, s1)"
    by (cases "test_onnx_try w onnx_path original_model_path s")
  have nx: "r \<noteq> Inl (SysExit n)" for n
    using no_exit_test_onnx_try [of w onnx_path original_model_path] body
    by (metis fst_conv no_exit_def)
  show ?thesis
  proof (cases r)
    case (Inr b)
    then show ?thesis by (simp add: test_onnx_model_def try_except_def body)
  next
    case (Inl st)
    show ?thesis
    proof (cases st)
      case (Raise e)
      then show ?thesis
        using test_onnx_except_returns [of e s1] Inl
        by (simp add: test_onnx_model_def try_except_def body)
    next
      case (SysExit n)
      then show ?thesis using nx [of n] Inl by simp
    qed
  qed
qed

lemma try_except_Inr_iff:
  "try_except m h s = (Inr r, s') \<longleftrightarrow>
     m s = (Inr r, s') \<or> (\<exists>e s1. m s = (Inl (Raise e), s1) \<and> h e s1 = (Inr r, s'))"
  by (auto simp: try_except_def split: prod.splits sum.splits stop.splits)

lemma SentenceTransformer_Inr_iff:
  "SentenceTransformer w p s = (Inr model, s') \<longleftrightarrow>
     fault w (Load p) = None \<and> pretrained w p = Inr model \<and> s' = s"
  by (auto simp: SentenceTransformer_def ext_Inr_iff lift_Inr_iff)

lemma run_Finished_iff: "run m s = (Finished, s') \<longleftrightarrow> (\<exists>u. m s = (Inr u, s'))"
  by (auto simp: run_def split: prod.splits sum.splits stop.splits)

lemma extract_model_weights_success:
  assumes "extract_model_weights w inp out s = (Inr True, s')"
  shows "\<exists>model m0 a tok vocab dim.
     pretrained w inp = Inr model \<and>
     getitem (modules model) 0 = Inr m0 \<and> embedding_weight m0 = Inr a \<and>
     tokenizer model = Inr tok \<and> get_vocab tok = Inr vocab \<and> shape_at a 1 = Inr dim \<and>
     files s' (os_path_join out ''embedding_weights.npy'') = Some (Npy a) \<and>
     files s' (os_path_join out ''vocab.json'') = Some (JsonFile (vocab_json vocab)) \<and>
     files s' (os_path_join out ''model_config.json'')
       = Some (JsonFile (config_data model vocab dim))"
  using assms
  apply (clarsimp simp: extract_model_weights_def bnd_Inr_iff seq_Inr_iff print_iff ret_iff
      try_except_Inr_iff SentenceTransformer_Inr_iff)
  apply (drule extract_try_success)
  apply auto
  done

lemma create_go_embedding_data_success:
  assumes "create_go_embedding_data w out s = (Inr u, s')"
  shows "\<exists>a rows cols.
     files s (os_path_join out ''embedding_weights.npy'') = Some (Npy a) \<and>
     shape_at a 0 = Inr rows \<and> shape_at a 1 = Inr cols \<and>
     files s' = (files s)
       (os_path_join out ''embeddings.bin'' \<mapsto> Bin (tobytes (astype w a)),
        os_path_join out ''embeddings_metadata.json'' \<mapsto> JsonFile (metadata rows cols))"
  using assms
  by (clarsimp simp: create_go_embedding_data_def Let_def bnd_Inr_iff seq_Inr_iff print_iff
      lift_Inr_iff np_load_Inr_iff write_file_Inr_iff json_dump_def)

lemma extract_main_success:
  assumes "run (extract_main w [prog, inp, out]) s = (Finished, s')"
  shows "\<exists>model m0 a tok vocab rows cols.
     pretrained w inp = Inr model \<and>
     getitem (modules model) 0 = Inr m0 \<and> embedding_weight m0 = Inr a \<and>
     tokenizer model = Inr tok \<and> get_vocab tok = Inr vocab \<and>
     shape_at a 0 = Inr rows \<and> shape_at a 1 = Inr cols \<and>
     files s' (os_path_join out ''embedding_weights.npy'') = Some (Npy a) \<and>
     files s' (os_path_join out ''vocab.json'') = Some (JsonFile (vocab_json vocab)) \<and>
     files s' (os_path_join out ''model_config.json'')
       = Some (JsonFile (config_data model vocab cols)) \<and>
     files s' (os_path_join out ''embeddings.bin'') = Some (Bin (tobytes (astype w a))) \<and>
     files s' (os_path_join out ''embeddings_metadata.json'')
       = Some (JsonFile (metadata rows cols))"
proof -
  from assms obtain s1 s2 s3 s4 u where
    ex: "extract_model_weights w inp out s1 = (Inr True, s2)" and
    go: "create_go_embedding_data w out s3 = (Inr u, s4)" and
    s3: "files s3 = files s2" and s4: "files s' = files s4"
    by (auto simp: run_Finished_iff extract_main_def Let_def bnd_Inr_iff seq_Inr_iff print_iff
        sys_exit_iff os_path_exists_def split: if_splits)
  from extract_model_weights_success [OF ex] obtain model m0 a tok vocab dim where
    m: "pretrained w inp = Inr model" "getitem (modules model) 0 = Inr m0"
       "embedding_weight m0 = Inr a" "tokenizer model = Inr tok" "get_vocab tok = Inr vocab"
       "shape_at a 1 = Inr dim" and
    f: "files s2 (os_path_join out ''embedding_weights.npy'') = Some (Npy a)"
       "files s2 (os_path_join out ''vocab.json'') = Some (JsonFile (vocab_json vocab))"
       "files s2 (os_path_join out ''model_config.json'')
          = Some (JsonFile (config_data model vocab dim))"
    by blast
  from create_go_embedding_data_success [OF go] obtain a' rows cols where
    g: "files s3 (os_path_join out ''embedding_weights.npy'') = Some (Npy a')"
       "shape_at a' 0 = Inr rows" "shape_at a' 1 = Inr cols"
       "files s4 = (files s3)
         (os_path_join out ''embeddings.bin'' \<mapsto> Bin (tobytes (astype w a')),
          os_path_join out ''embeddings_metadata.json'' \<mapsto> JsonFile (metadata rows cols))"
    by blast
  have aa: "a' = a" using g(1) f(1) s3 by simp
  have dim: "dim = cols" using g(3) m(6) aa by simp
  show ?thesis
    using m f g(2,3) s3 aa dim
    by (simp add: s4 g(4) join_neq)
qed

section \<open>The claims\<close>

lemma length_concat_le_bytes: "length (concat (map le_bytes xs)) = 4 * length xs"
  by (induction xs) (simp_all add: le_bytes_def)

lemma length_tobytes: "length (tobytes a) = 4 * length (data a)"
  by (simp add: tobytes_def length_concat_le_bytes)

lemma length_tobytes_astype: "length (tobytes (astype w a)) = 4 * length (data a)"
  by (simp add: length_tobytes astype_def)

lemma demo_extract_finishes:
  "run (extract_main demo_world [''extract_embeddings.py'', ''m'', ''out'']) demo_state
     = (Finished, snd (run (extract_main demo_world [''extract_embeddings.py'', ''m'', ''out''])
         demo_state))"
proof -
  have "fst (run (extract_main demo_world [''extract_embeddings.py'', ''m'', ''out''])
          demo_state) = Finished"
    by code_simp
  then show ?thesis by (metis prod.collapse)
qed

text \<open>
  C1. When the extractor runs to its end, \<open>embeddings.bin\<close> holds the bytes of the model's
  weight matrix cast to float32 in row-major order, \<open>embeddings_metadata.json\<close> records the
  matrix's two dimensions as \<open>vocab_size\<close> and \<open>embedding_dim\<close>, and the file is
  \<open>vocab_size * embedding_dim * 4\<close> bytes long.
\<close>

theorem embeddings_bin_length:
  assumes "run (extract_main w [prog, inp, out]) s = (Finished, s')"
    and "model_weights w inp = Inr a"
    and "wf_ndarray a"
    and "length (shape a) = 2"
  shows "\<exists>bs meta rows cols.
     files s' (os_path_join out ''embeddings.bin'') = Some (Bin bs) \<and>
     bs = tobytes (astype w a) \<and>
     json_file s' (os_path_join out ''embeddings_metadata.json'') = Some meta \<and>
     json_get meta ''vocab_size'' = Some (JInt (int rows)) \<and>
     json_get meta ''embedding_dim'' = Some (JInt (int cols)) \<and>
     shape a = [rows, cols] \<and>
     length bs = rows * cols * 4"
proof -
  from extract_main_success [OF assms(1)] obtain model m0 a' rows cols where
    m: "pretrained w inp = Inr model" "getitem (modules model) 0 = Inr m0"
       "embedding_weight m0 = Inr a'" and
    sh: "shape_at a' 0 = Inr rows" "shape_at a' 1 = Inr cols" and
    f: "files s' (os_path_join out ''embeddings.bin'') = Some (Bin (tobytes (astype w a')))"
       "files s' (os_path_join out ''embeddings_metadata.json'')
          = Some (JsonFile (metadata rows cols))"
    by blast
  have aa: "a' = a" using assms(2) m by (simp add: model_weights_def)
  obtain r c where rc: "shape a = [r, c]"
    using assms(4) by (cases "shape a"; cases "tl (shape a)"; cases "tl (tl (shape a))") auto
  have r: "rows = r" and c: "cols = c"
    using sh rc aa by (simp_all add: shape_at_def getitem_def)
  have len: "length (tobytes (astype w a)) = rows * cols * 4"
    using assms(3) rc r c by (simp add: length_tobytes_astype wf_ndarray_def)
  show ?thesis
    using f aa rc r c len
    by (simp add: json_file_def json_get_def metadata_def)
qed

theorem embeddings_bin_length_witness:
  "run (extract_main demo_world [''extract_embeddings.py'', ''m'', ''out'']) demo_state
     = (Finished, snd (run (extract_main demo_world [''extract_embeddings.py'', ''m'', ''out''])
         demo_state)) \<and>
   model_weights demo_world ''m'' = Inr demo_weights \<and>
   wf_ndarray demo_weights \<and> length (shape demo_weights) = 2 \<and>
   (\<exists>bs meta rows cols.
     files (snd (run (extract_main demo_world [''extract_embeddings.py'', ''m'', ''out''])
         demo_state)) (os_path_join ''out'' ''embeddings.bin'') = Some (Bin bs) \<and>
     bs = tobytes (astype demo_world demo_weights) \<and>
     json_file (snd (run (extract_main demo_world [''extract_embeddings.py'', ''m'', ''out''])
         demo_state)) (os_path_join ''out'' ''embeddings_metadata.json'') = Some meta \<and>
     json_get meta ''vocab_size'' = Some (JInt (int rows)) \<and>
     json_get meta ''embedding_dim'' = Some (JInt (int cols)) \<and>
     shape demo_weights = [rows, cols] \<and>
     length bs = rows * cols * 4)"
proof -
  have h2: "model_weights demo_world ''m'' = Inr demo_weights"
    by (simp add: model_weights_def demo_world_def demo_model_def getitem_def demo_embedding_def)
  have h3: "wf_ndarray demo_weights" by (simp add: wf_ndarray_def demo_weights_def)
  have h4: "length (shape demo_weights) = 2" by (simp add: demo_weights_def)
  show ?thesis
    using embeddings_bin_length [OF demo_extract_finishes h2 h3 h4] demo_extract_finishes h2 h3 h4
    by blast
qed

text \<open>
  C8. When the input model path does not exist, \<open>convert_to_onnx.py\<close> and
  \<open>extract_embeddings.py\<close> print one line, which names the path, exit with status 1, and
  leave the file system as it was.
\<close>

theorem missing_input_path:
  assumes "files s input_path = None" and "input_path \<notin> dirs s"
  shows "run (convert_main w [prog, input_path, output_path]) s
           = (Exited 1,
              s\<lparr>stdout := stdout s @ [[S ''Error: Input path does not exist: '', S input_path]]\<rparr>)
       \<and> run (extract_main w [prog, input_path, output_path]) s
           = (Exited 1,
              s\<lparr>stdout := stdout s @ [[S ''Error: Input path does not exist: '', S input_path]]\<rparr>)"
  using assms
  by (simp add: convert_main_def extract_main_def run_def bnd_def seq_def os_path_exists_def
      print_def sys_exit_def)

theorem missing_input_path_witness:
  "files demo_state ''nowhere'' = None \<and> ''nowhere'' \<notin> dirs demo_state \<and>
   run (convert_main demo_world [''convert_to_onnx.py'', ''nowhere'', ''out'']) demo_state
     = (Exited 1,
        demo_state\<lparr>stdout := stdout demo_state
          @ [[S ''Error: Input path does not exist: '', S ''nowhere'']]\<rparr>) \<and>
   run (extract_main demo_world [''extract_embeddings.py'', ''nowhere'', ''out'']) demo_state
     = (Exited 1,
        demo_state\<lparr>stdout := stdout demo_state
          @ [[S ''Error: Input path does not exist: '', S ''nowhere'']]\<rparr>)"
proof -
  have h1: "files demo_state ''nowhere'' = None" by (simp add: demo_state_def)
  have h2: "''nowhere'' \<notin> dirs demo_state" by (simp add: demo_state_def)
  show ?thesis
    using missing_input_path [OF h1 h2, of demo_world] h1 h2 by blast
qed

end
